theory Spec2Isabelle
  imports Main "HOL-Library.Sublist"
begin

section \<open>The bootstrap module \<^verbatim>\<open>frontend/src/main.jsx\<close>\<close>

text \<open>
  The module consists of four imports and one expression statement:
  \<^verbatim>\<open>ReactDOM.createRoot(document.getElementById('root')).render(<React.StrictMode><App /></React.StrictMode>)\<close>.
  Everything it calls belongs to the host environment (the document) or to the rendering
  framework; neither is part of the repository. The host is therefore a parameter of the
  model: a record of the operations the module calls. Each operation may change the
  document and may throw; a throw keeps whatever document the operation left behind.
\<close>

subsection \<open>The component tree passed to the render request\<close>

datatype component = StrictMode | App

datatype jsx = Element component "jsx list"

definition app_tree :: jsx where
  \<comment> \<open>\<^verbatim>\<open><React.StrictMode><App /></React.StrictMode>\<close>\<close>
  "app_tree = Element StrictMode [Element App []]"

subsection \<open>The host: document and rendering framework\<close>

record ('n, 'r, 'd, 'e) host =
  lookup_id :: "'d \<Rightarrow> string \<Rightarrow> 'n option"
  create_root :: "'n option \<Rightarrow> 'd \<Rightarrow> ('e + 'r) \<times> 'd"
  render_root :: "'r \<Rightarrow> jsx \<Rightarrow> 'd \<Rightarrow> ('e + unit) \<times> 'd"
  load_module :: "string \<Rightarrow> 'd \<Rightarrow> ('e + unit) \<times> 'd"

text \<open>
  \<open>lookup_id\<close> is \<^verbatim>\<open>document.getElementById\<close> (\<open>None\<close> is JavaScript's \<^verbatim>\<open>null\<close>),
  \<open>create_root\<close> is \<^verbatim>\<open>ReactDOM.createRoot\<close>, \<open>render_root\<close> is the \<^verbatim>\<open>render\<close> method of
  the root it returns, and \<open>load_module\<close> is the evaluation of an imported module.
  The types \<open>'n\<close> (nodes), \<open>'r\<close> (render roots), \<open>'d\<close> (documents) and \<open>'e\<close> (thrown
  values) are the host's own. A host may carry anything else (clock, random source, other
  globals) in the extension part of the record.
\<close>

subsection \<open>Calls, as the host sees them\<close>

datatype ('n, 'r) event =
    Import string
  | Lookup string
  | CreateRoot "'n option"
  | Render 'r jsx

fun is_Lookup :: "('n, 'r) event \<Rightarrow> bool" where
  "is_Lookup (Lookup i) = True"
| "is_Lookup e = False"

fun is_CreateRoot :: "('n, 'r) event \<Rightarrow> bool" where
  "is_CreateRoot (CreateRoot c) = True"
| "is_CreateRoot e = False"

fun is_Render :: "('n, 'r) event \<Rightarrow> bool" where
  "is_Render (Render r t) = True"
| "is_Render e = False"

fun step_no :: "('n, 'r) event \<Rightarrow> nat" where
  "step_no (Import m) = 0"
| "step_no (Lookup i) = 1"
| "step_no (CreateRoot c) = 2"
| "step_no (Render r t) = 3"

subsection \<open>Programs: a document, a log of calls, and a result or a thrown value\<close>

type_synonym ('n, 'r, 'd) world = "'d \<times> ('n, 'r) event list"

type_synonym ('a, 'n, 'r, 'd, 'e) prog = "('n, 'r, 'd) world \<Rightarrow> ('e + 'a) \<times> ('n, 'r, 'd) world"

definition seq :: "('a, 'n, 'r, 'd, 'e) prog \<Rightarrow> ('a \<Rightarrow> ('b, 'n, 'r, 'd, 'e) prog) \<Rightarrow> ('b, 'n, 'r, 'd, 'e) prog" where
  \<comment> \<open>sequencing without a handler: a thrown value ends the program\<close>
  "seq m f = (\<lambda>w. case m w of (Inl e, w') \<Rightarrow> (Inl e, w') | (Inr a, w') \<Rightarrow> f a w')"

definition getElementById :: "('n, 'r, 'd, 'e, 'z) host_scheme \<Rightarrow> string \<Rightarrow> ('n option, 'n, 'r, 'd, 'e) prog" where
  "getElementById h ident = (\<lambda>(d, log). (Inr (lookup_id h d ident), (d, log @ [Lookup ident])))"

definition createRoot :: "('n, 'r, 'd, 'e, 'z) host_scheme \<Rightarrow> 'n option \<Rightarrow> ('r, 'n, 'r, 'd, 'e) prog" where
  "createRoot h container =
     (\<lambda>(d, log). case create_root h container d of (res, d') \<Rightarrow> (res, (d', log @ [CreateRoot container])))"

definition render :: "('n, 'r, 'd, 'e, 'z) host_scheme \<Rightarrow> 'r \<Rightarrow> jsx \<Rightarrow> (unit, 'n, 'r, 'd, 'e) prog" where
  "render h root tree =
     (\<lambda>(d, log). case render_root h root tree d of (res, d') \<Rightarrow> (res, (d', log @ [Render root tree])))"

definition import_module :: "('n, 'r, 'd, 'e, 'z) host_scheme \<Rightarrow> string \<Rightarrow> (unit, 'n, 'r, 'd, 'e) prog" where
  "import_module h m =
     (\<lambda>(d, log). case load_module h m d of (res, d') \<Rightarrow> (res, (d', log @ [Import m])))"

subsection \<open>The module\<close>

definition bootstrap :: "('n, 'r, 'd, 'e, 'z) host_scheme \<Rightarrow> (unit, 'n, 'r, 'd, 'e) prog" where
  \<comment> \<open>lines 6 to 10: the argument of \<^verbatim>\<open>createRoot\<close> is evaluated first, then the call, then
      the argument of \<^verbatim>\<open>render\<close> (a literal), then the call\<close>
  "bootstrap h =
     seq (getElementById h ''root'') (\<lambda>container.
     seq (createRoot h container) (\<lambda>root.
     render h root app_tree))"

definition module_imports :: "('n, 'r, 'd, 'e, 'z) host_scheme \<Rightarrow> (unit, 'n, 'r, 'd, 'e) prog" where
  \<comment> \<open>lines 1 to 4: imported modules are evaluated in source order, before the module body\<close>
  "module_imports h =
     seq (import_module h ''react'') (\<lambda>_.
     seq (import_module h ''react-dom/client'') (\<lambda>_.
     seq (import_module h ''./App.jsx'') (\<lambda>_.
     import_module h ''./assets/styles/GlobalStyle.scss'')))"

definition main_jsx :: "('n, 'r, 'd, 'e, 'z) host_scheme \<Rightarrow> (unit, 'n, 'r, 'd, 'e) prog" where
  "main_jsx h = seq (module_imports h) (\<lambda>_. bootstrap h)"

text \<open>A run starts with an empty log; these read its outcome.\<close>

definition outcome :: "('a, 'n, 'r, 'd, 'e) prog \<Rightarrow> 'd \<Rightarrow> 'e + 'a" where
  "outcome p d = fst (p (d, []))"

definition final_doc :: "('a, 'n, 'r, 'd, 'e) prog \<Rightarrow> 'd \<Rightarrow> 'd" where
  "final_doc p d = fst (snd (p (d, [])))"

definition calls :: "('a, 'n, 'r, 'd, 'e) prog \<Rightarrow> 'd \<Rightarrow> ('n, 'r) event list" where
  "calls p d = snd (snd (p (d, [])))"

text \<open>The calls made by the four imports, in source order.\<close>

definition import_list :: "('n, 'r) event list" where
  "import_list = [Import ''react'', Import ''react-dom/client'', Import ''./App.jsx'',
     Import ''./assets/styles/GlobalStyle.scss'']"

section \<open>A reference host\<close>

text \<open>
  The document and the rendering framework are outside the repository. The following host
  is written from the specification's description of them; it serves to run the module on
  concrete documents.
\<close>

subsection \<open>Documents\<close>

text \<open>
  Modelled from the spec: the host document ("a single node in the host environment's
  presentation tree", identified "by a fixed string identifier"), which is not part of the
  sources. A document is a tree of elements (tag, optional identifier, children) and text
  nodes; a node is addressed by the path of child positions leading to it.
\<close>

datatype dom = Text string | Elem string "string option" "dom list"

text \<open>
  Modelled from the spec: mount-point resolution ("Resolve the Mount Point by fixed
  identifier"; the result may be "not found"), performed by the host document and absent
  from the sources. The first element in document order carrying the identifier is found.
\<close>

fun find_id :: "string \<Rightarrow> dom \<Rightarrow> nat list option"
  and find_first :: "string \<Rightarrow> nat \<Rightarrow> dom list \<Rightarrow> nat list option" where
  "find_id i (Text s) = None"
| "find_id i (Elem tag a cs) = (if a = Some i then Some [] else find_first i 0 cs)"
| "find_first i k [] = None"
| "find_first i k (c # cs) =
     (case find_id i c of Some p \<Rightarrow> Some (k # p) | None \<Rightarrow> find_first i (Suc k) cs)"

text \<open>
  Modelled from the spec: what can be read off the host document, which is absent from the
  sources: the node at a path, a node's own data (tag and identifier, or text) without
  its children, and the "text content" of a node, the concatenation of the texts below it.
\<close>

fun node_at :: "nat list \<Rightarrow> dom \<Rightarrow> dom option" where
  "node_at [] n = Some n"
| "node_at (i # p) (Text s) = None"
| "node_at (i # p) (Elem tag a cs) = (if i < length cs then node_at p (cs ! i) else None)"

fun without_children :: "dom \<Rightarrow> dom" where
  "without_children (Text s) = Text s"
| "without_children (Elem tag a cs) = Elem tag a []"

fun text_content :: "dom \<Rightarrow> string" where
  "text_content (Text s) = s"
| "text_content (Elem tag a cs) = concat (map text_content cs)"

text \<open>
  Modelled from the spec: the effect of a render on the document ("mutates the host
  document by inserting rendered markup under the Mount Point"; the root "owns the
  component subtree rendered into it"), performed by the rendering framework and absent
  from the sources. The children of the element at the path become the rendered markup; a
  path that leads to no element changes nothing.
\<close>

fun replace_children :: "nat list \<Rightarrow> dom list \<Rightarrow> dom \<Rightarrow> dom" where
  "replace_children p m (Text s) = Text s"
| "replace_children [] m (Elem tag a cs) = Elem tag a m"
| "replace_children (i # p) m (Elem tag a cs) =
     (if i < length cs then Elem tag a (cs[i := replace_children p m (cs ! i)])
      else Elem tag a cs)"

subsection \<open>The rendering framework\<close>

text \<open>
  Modelled from the spec: the markup a component tree renders to, computed by the
  rendering framework and by the application component \<^verbatim>\<open>App.jsx\<close>, both absent from the
  sources. The application component renders the given markup; the diagnostic wrapper
  "does not alter rendered output" and so renders what its children render.
\<close>

fun rendered :: "dom list \<Rightarrow> jsx \<Rightarrow> dom list" where
  "rendered m (Element StrictMode cs) = concat (map (rendered m) cs)"
| "rendered m (Element App cs) = m"

text \<open>
  Modelled from the spec: the one failure the specification names for the framework, a
  mount point that was not found.
\<close>

datatype fault = MountPointNotFound

text \<open>
  Modelled from the spec: the rendering framework's two operations ("create root bound to
  node" and "render component tree into root"), absent from the sources. A render root is
  the path of its mount point. Creating a root needs a mount point ("The Mount Point must
  be non-null at lookup time"; a missing one is a failure that "propagate[s] uncaught")
  and leaves the document alone; rendering puts the markup under the mount point.
  Importing a module succeeds and leaves the document alone.
\<close>

definition spec_host :: "dom list \<Rightarrow> (nat list, nat list, dom, fault) host" where
  "spec_host app_markup =
     \<lparr> lookup_id = (\<lambda>d i. find_id i d),
       create_root = (\<lambda>c d. case c of None \<Rightarrow> (Inl MountPointNotFound, d) | Some p \<Rightarrow> (Inr p, d)),
       render_root = (\<lambda>p t d. (Inr (), replace_children p (rendered app_markup t) d)),
       load_module = (\<lambda>m d. (Inr (), d)) \<rparr>"

text \<open>
  Modelled from the spec: the same host in an environment that also offers a clock, which
  the specification's operations take no notice of.
\<close>

definition host_with_clock :: "dom list \<Rightarrow> nat \<Rightarrow> (nat list, nat list, dom, fault, nat) host_scheme" where
  "host_with_clock app_markup now = host.extend (spec_host app_markup) now"

text \<open>
  Modelled from the spec: the text content of the element carrying an identifier ("the
  host document's "root" node contains rendered markup whose text content equals ..."),
  read from the host document.
\<close>

definition text_of_id :: "string \<Rightarrow> dom \<Rightarrow> string option" where
  "text_of_id i d = (case find_id i d of None \<Rightarrow> None | Some p \<Rightarrow> map_option text_content (node_at p d))"

text \<open>The documents used as concrete inputs.\<close>

definition root_only_doc :: dom where
  \<comment> \<open>\<^verbatim>\<open><div id="root"></div>\<close>\<close>
  "root_only_doc = Elem ''div'' (Some ''root'') []"

definition page_doc :: dom where
  \<comment> \<open>\<^verbatim>\<open><body><h1 id="title">CleanPro</h1><div id="root"></div></body>\<close>\<close>
  "page_doc = Elem ''body'' None
     [Elem ''h1'' (Some ''title'') [Text ''CleanPro''], Elem ''div'' (Some ''root'') []]"

definition rootless_doc :: dom where
  \<comment> \<open>\<^verbatim>\<open><body><div id="app"></div></body>\<close>\<close>
  "rootless_doc = Elem ''body'' None [Elem ''div'' (Some ''app'') []]"

section \<open>Runs of the module on an arbitrary host\<close>

lemma bootstrap_run:
  "bootstrap h (d, log) =
     (case create_root h (lookup_id h d ''root'') d of
        (Inl e, d1) \<Rightarrow> (Inl e, (d1, log @ [Lookup ''root'', CreateRoot (lookup_id h d ''root'')]))
      | (Inr r, d1) \<Rightarrow>
          (case render_root h r app_tree d1 of
             (res, d2) \<Rightarrow>
               (res, (d2, log @ [Lookup ''root'', CreateRoot (lookup_id h d ''root''), Render r app_tree]))))"
  by (simp add: bootstrap_def seq_def getElementById_def createRoot_def render_def
      split: prod.splits sum.splits)

lemma bootstrap_log:
  "\<exists>res d' c. bootstrap h (d, log) = (res, (d', log @ [Lookup ''root'', CreateRoot c]))
     \<or> (\<exists>r. bootstrap h (d, log) = (res, (d', log @ [Lookup ''root'', CreateRoot c, Render r app_tree])))"
  by (simp add: bootstrap_run split: prod.splits sum.splits)

text \<open>
  The imports stop at the first module whose evaluation throws; only when all four have
  been evaluated does the module body start.
\<close>

lemma module_imports_run:
  "\<exists>res d' k. module_imports h (d, log) = (res, (d', log @ take k import_list))
     \<and> ((\<exists>u. res = Inr u) \<longrightarrow> k = 4)"
proof -
  obtain r1 d1 where 1: "load_module h ''react'' d = (r1, d1)"
    by (cases "load_module h ''react'' d")
  obtain r2 d2 where 2: "load_module h ''react-dom/client'' d1 = (r2, d2)"
    by (cases "load_module h ''react-dom/client'' d1")
  obtain r3 d3 where 3: "load_module h ''./App.jsx'' d2 = (r3, d3)"
    by (cases "load_module h ''./App.jsx'' d2")
  obtain r4 d4 where 4: "load_module h ''./assets/styles/GlobalStyle.scss'' d3 = (r4, d4)"
    by (cases "load_module h ''./assets/styles/GlobalStyle.scss'' d3")
  show ?thesis
  proof (cases r1)
    case (Inl e)
    with 1 have "module_imports h (d, log) = (Inl e, (d1, log @ take 1 import_list))"
      by (simp add: module_imports_def seq_def import_module_def import_list_def)
    then show ?thesis by blast
  next
    case a: (Inr u1)
    show ?thesis
    proof (cases r2)
      case (Inl e)
      with 1 2 a have "module_imports h (d, log) = (Inl e, (d2, log @ take 2 import_list))"
        by (simp add: module_imports_def seq_def import_module_def import_list_def)
      then show ?thesis by blast
    next
      case b: (Inr u2)
      show ?thesis
      proof (cases r3)
        case (Inl e)
        with 1 2 3 a b have "module_imports h (d, log) = (Inl e, (d3, log @ take 3 import_list))"
          by (simp add: module_imports_def seq_def import_module_def import_list_def)
        then show ?thesis by blast
      next
        case c: (Inr u3)
        with 1 2 3 4 a b have "module_imports h (d, log) = (r4, (d4, log @ take 4 import_list))"
          by (simp add: module_imports_def seq_def import_module_def import_list_def)
        then show ?thesis by blast
      qed
    qed
  qed
qed

lemma main_jsx_calls:
  "(\<exists>k. calls (main_jsx h) d = take k import_list)
   \<or> (\<exists>c. calls (main_jsx h) d = import_list @ [Lookup ''root'', CreateRoot c])
   \<or> (\<exists>c r. calls (main_jsx h) d = import_list @ [Lookup ''root'', CreateRoot c, Render r app_tree])"
proof -
  obtain res d' k where m: "module_imports h (d, []) = (res, (d', take k import_list))"
    and k: "(\<exists>u. res = Inr u) \<longrightarrow> k = 4"
    using module_imports_run [of h d "[]"] by auto
  show ?thesis
  proof (cases res)
    case (Inl e)
    with m have "calls (main_jsx h) d = take k import_list"
      by (simp add: calls_def main_jsx_def seq_def)
    then show ?thesis by blast
  next
    case (Inr u)
    with k have "k = 4" by simp
    then have k4: "take k import_list = import_list" by (simp add: import_list_def)
    from Inr m have "module_imports h (d, []) = (Inr u, (d', import_list))"
      by (simp only: k4)
    then have "calls (main_jsx h) d = snd (snd (bootstrap h (d', import_list)))"
      by (simp add: calls_def main_jsx_def seq_def)
    with bootstrap_log [of h d' import_list] show ?thesis by auto
  qed
qed

lemma no_render_in_imports: "Render r t \<notin> set (take k import_list)"
  by (auto simp: import_list_def dest!: in_set_takeD)

lemma only_at_end:
  assumes "xs @ a # ys = L @ [b]" and "a \<notin> set L"
  shows "xs = L \<and> ys = []"
proof (cases ys rule: rev_cases)
  case Nil
  with assms(1) show ?thesis by simp
next
  case (snoc ys' y)
  with assms(1) have "(xs @ a # ys') @ [y] = L @ [b]" by simp
  then have "xs @ a # ys' = L" by (simp only: append1_eq_conv)
  then have "a \<in> set L" by auto
  with assms(2) show ?thesis by contradiction
qed

section \<open>Runs of the module on the reference host\<close>

lemma spec_host_sel:
  "lookup_id (spec_host m) d i = find_id i d"
  "create_root (spec_host m) None d = (Inl MountPointNotFound, d)"
  "create_root (spec_host m) (Some p) d = (Inr p, d)"
  "render_root (spec_host m) p t d = (Inr (), replace_children p (rendered m t) d)"
  "load_module (spec_host m) s d = (Inr (), d)"
  by (simp_all add: spec_host_def)

lemma bootstrap_spec_host:
  "bootstrap (spec_host m) (d, log) =
     (case find_id ''root'' d of
        None \<Rightarrow> (Inl MountPointNotFound, (d, log @ [Lookup ''root'', CreateRoot None]))
      | Some p \<Rightarrow>
          (Inr (), (replace_children p m d,
             log @ [Lookup ''root'', CreateRoot (Some p), Render p app_tree])))"
  by (simp add: bootstrap_run spec_host_sel app_tree_def split: option.splits)

lemma module_imports_spec_host:
  "module_imports (spec_host m) (d, log) = (Inr (), (d, log @ import_list))"
  by (simp add: module_imports_def seq_def import_module_def spec_host_sel import_list_def)

lemma main_jsx_spec_host:
  "main_jsx (spec_host m) (d, log) = bootstrap (spec_host m) (d, log @ import_list)"
  by (simp add: main_jsx_def seq_def module_imports_spec_host)

text \<open>
  Replacing the children of the element at \<open>p\<close> leaves every node alone whose path is
  neither below \<open>p\<close> nor above it, and keeps tag and identifier of those above it.
\<close>

lemma replace_children_other:
  "\<not> prefix p q \<Longrightarrow> \<not> prefix q p \<Longrightarrow> node_at q (replace_children p m d) = node_at q d"
proof (induction p m d arbitrary: q rule: replace_children.induct)
  case (1 p m s)
  then show ?case by simp
next
  case (2 m tag a cs)
  then show ?case by simp
next
  case (3 i p m tag a cs)
  show ?case
  proof (cases q)
    case Nil
    with 3 show ?thesis by simp
  next
    case (Cons j q')
    show ?thesis
    proof (cases "i < length cs")
      case False
      then show ?thesis by simp
    next
      case True
      show ?thesis
      proof (cases "j = i")
        case False
        with True Cons show ?thesis by simp
      next
        case same: True
        with 3 Cons True show ?thesis by simp
      qed
    qed
  qed
qed

lemma replace_children_above:
  "\<not> prefix p q \<Longrightarrow>
     map_option without_children (node_at q (replace_children p m d))
       = map_option without_children (node_at q d)"
proof (induction p m d arbitrary: q rule: replace_children.induct)
  case (1 p m s)
  then show ?case by simp
next
  case (2 m tag a cs)
  then show ?case by simp
next
  case (3 i p m tag a cs)
  show ?case
  proof (cases q)
    case Nil
    then show ?thesis by simp
  next
    case (Cons j q')
    show ?thesis
    proof (cases "i < length cs")
      case False
      then show ?thesis by simp
    next
      case True
      show ?thesis
      proof (cases "j = i")
        case False
        with True Cons show ?thesis by simp
      next
        case same: True
        with 3 Cons True show ?thesis by simp
      qed
    qed
  qed
qed

section \<open>Properties of the bootstrap\<close>

text \<open>
  Claim C1. On a host document in which the lookup of \<^verbatim>\<open>"root"\<close> finds an element \<open>n\<close>,
  with a framework whose root creation on \<open>n\<close> returns a render root \<open>r\<close>, a run of the
  bootstrap statement creates exactly one render root, and creates it on \<open>n\<close>, and issues
  exactly one render request, on \<open>r\<close>, for the application's component tree. In
  particular no second root is created on the mount point during the run.
\<close>

theorem bootstrap_one_root_one_render:
  assumes "lookup_id h d ''root'' = Some n"
    and "create_root h (Some n) d = (Inr r, d1)"
  shows "filter is_CreateRoot (calls (bootstrap h) d) = [CreateRoot (Some n)]
       \<and> filter is_Render (calls (bootstrap h) d) = [Render r app_tree]"
  using assms by (simp add: calls_def bootstrap_run split: prod.splits)

theorem bootstrap_one_root_one_render_witness:
  "lookup_id (spec_host [Text ''Hello'']) page_doc ''root'' = Some [1]
   \<and> create_root (spec_host [Text ''Hello'']) (Some [1]) page_doc = (Inr [1], page_doc)
   \<and> filter is_CreateRoot (calls (bootstrap (spec_host [Text ''Hello''])) page_doc)
       = [CreateRoot (Some [1])]
   \<and> filter is_Render (calls (bootstrap (spec_host [Text ''Hello''])) page_doc)
       = [Render [1] app_tree]"
proof -
  have a: "lookup_id (spec_host [Text ''Hello'']) page_doc ''root'' = Some [1]"
    by (simp add: spec_host_sel page_doc_def)
  have b: "create_root (spec_host [Text ''Hello'']) (Some [1]) page_doc = (Inr [1], page_doc)"
    by (simp add: spec_host_sel)
  show ?thesis using a b bootstrap_one_root_one_render [OF a b] by simp
qed

text \<open>
  Claim C2. When the host document has no element with identifier \<^verbatim>\<open>"root"\<close> (the lookup
  yields null) and the framework's root creation rejects a null container by throwing
  \<open>e\<close>, the bootstrap statement ends with \<open>e\<close> uncaught: its outcome is the thrown value
  itself, not a normal completion. Nothing is handled or retried: the calls made are one
  lookup and one root creation, and nothing after the throw.
\<close>

theorem missing_root_error_uncaught:
  assumes "lookup_id h d ''root'' = None"
    and "create_root h None d = (Inl e, d')"
  shows "outcome (bootstrap h) d = Inl e
       \<and> calls (bootstrap h) d = [Lookup ''root'', CreateRoot None]"
  using assms by (simp add: outcome_def calls_def bootstrap_run)

theorem missing_root_error_uncaught_witness:
  "lookup_id (spec_host []) rootless_doc ''root'' = None
   \<and> create_root (spec_host []) None rootless_doc = (Inl MountPointNotFound, rootless_doc)
   \<and> outcome (bootstrap (spec_host [])) rootless_doc = Inl MountPointNotFound
   \<and> calls (bootstrap (spec_host [])) rootless_doc = [Lookup ''root'', CreateRoot None]"
proof -
  have a: "lookup_id (spec_host []) rootless_doc ''root'' = None"
    by (simp add: spec_host_sel rootless_doc_def)
  have b: "create_root (spec_host []) None rootless_doc = (Inl MountPointNotFound, rootless_doc)"
    by (simp add: spec_host_sel)
  show ?thesis using a b missing_root_error_uncaught [OF a b] by simp
qed

text \<open>
  Claim C3. In every run the bootstrap statement makes exactly one lookup, for the fixed
  identifier \<^verbatim>\<open>"root"\<close>, and exactly one root creation, whose container is exactly what
  that lookup returned, found or not: there is no second lookup under a fallback
  identifier, and a missing node is passed on as it is rather than created. What the
  document would answer for any other identifier has no influence on the run.
\<close>

theorem mount_point_is_root_lookup:
  "filter is_Lookup (calls (bootstrap h) d) = [Lookup ''root'']
   \<and> filter is_CreateRoot (calls (bootstrap h) d) = [CreateRoot (lookup_id h d ''root'')]
   \<and> bootstrap (h\<lparr>lookup_id := (\<lambda>d' i. if i = ''root'' then lookup_id h d' i else other d' i)\<rparr>) (d, log)
       = bootstrap h (d, log)"
  by (simp add: calls_def bootstrap_run split: prod.splits sum.splits)

text \<open>
  Claim C5. In every run of the bootstrap statement the calls are the mount-point lookup,
  then the root creation, then (when the creation returned) the render request, and
  nothing else: the step numbers of the calls increase strictly along the log, so no step
  is repeated, reordered or interleaved with another.
\<close>

theorem bootstrap_steps_in_order:
  "sorted_wrt (<) (map step_no (calls (bootstrap h) d))
   \<and> (\<exists>c. calls (bootstrap h) d = [Lookup ''root'', CreateRoot c]
          \<or> (\<exists>r. calls (bootstrap h) d = [Lookup ''root'', CreateRoot c, Render r app_tree]))"
  by (simp add: calls_def bootstrap_run split: prod.splits sum.splits)

text \<open>
  Claim C7. The global stylesheet is loaded by an import of the module, and imports are
  evaluated before the module body: in every run of the module, whenever a render request
  is issued, the import of \<^verbatim>\<open>./assets/styles/GlobalStyle.scss\<close> has been issued before it.
  That render request is the first and the last call of the run that is one.
\<close>

theorem stylesheet_import_before_render:
  assumes "calls (main_jsx h) d = xs @ Render r t # ys"
  shows "Import ''./assets/styles/GlobalStyle.scss'' \<in> set xs
       \<and> filter is_Render xs = [] \<and> ys = []"
proof -
  from assms have mem: "Render r t \<in> set (calls (main_jsx h) d)" by simp
  from main_jsx_calls [of h d] consider
      k where "calls (main_jsx h) d = take k import_list"
    | c where "calls (main_jsx h) d = import_list @ [Lookup ''root'', CreateRoot c]"
    | c r' where "calls (main_jsx h) d = import_list @ [Lookup ''root'', CreateRoot c, Render r' app_tree]"
    by blast
  then show ?thesis
  proof cases
    case 1
    with mem no_render_in_imports show ?thesis by metis
  next
    case 2
    with mem show ?thesis by (auto simp: import_list_def)
  next
    case 3
    with assms have "xs @ Render r t # ys
        = (import_list @ [Lookup ''root'', CreateRoot c]) @ [Render r' app_tree]"
      by simp
    moreover have "Render r t \<notin> set (import_list @ [Lookup ''root'', CreateRoot c])"
      by (simp add: import_list_def)
    ultimately have "xs = import_list @ [Lookup ''root'', CreateRoot c] \<and> ys = []"
      by (rule only_at_end)
    then show ?thesis by (simp add: import_list_def)
  qed
qed

theorem stylesheet_import_before_render_witness:
  "calls (main_jsx (spec_host [])) root_only_doc
     = (import_list @ [Lookup ''root'', CreateRoot (Some [])]) @ Render [] app_tree # []
   \<and> Import ''./assets/styles/GlobalStyle.scss''
       \<in> set (import_list @ [Lookup ''root'', CreateRoot (Some [])] :: (nat list, nat list) event list)"
proof -
  have a: "calls (main_jsx (spec_host [])) root_only_doc
     = (import_list @ [Lookup ''root'', CreateRoot (Some [])]) @ Render [] app_tree # []"
    by (simp add: calls_def main_jsx_spec_host bootstrap_spec_host root_only_doc_def)
  show ?thesis using a stylesheet_import_before_render [OF a] by simp
qed

text \<open>
  Claim C8. When the lookup of \<^verbatim>\<open>"root"\<close> yields null and the framework's root creation
  rejects the null container without touching the document, the bootstrap statement
  fails at the root creation: that is the last call made, no render request is issued,
  and the document at the end is the document at the start.
\<close>

theorem missing_root_no_render:
  assumes "lookup_id h d ''root'' = None"
    and "create_root h None d = (Inl e, d)"
  shows "filter is_Render (calls (bootstrap h) d) = []
       \<and> last (calls (bootstrap h) d) = CreateRoot None
       \<and> final_doc (bootstrap h) d = d"
  using assms by (simp add: final_doc_def calls_def bootstrap_run)

theorem missing_root_no_render_witness:
  "lookup_id (spec_host [Text ''Hello'']) rootless_doc ''root'' = None
   \<and> create_root (spec_host [Text ''Hello'']) None rootless_doc = (Inl MountPointNotFound, rootless_doc)
   \<and> filter is_Render (calls (bootstrap (spec_host [Text ''Hello''])) rootless_doc) = []
   \<and> final_doc (bootstrap (spec_host [Text ''Hello''])) rootless_doc = rootless_doc"
proof -
  have a: "lookup_id (spec_host [Text ''Hello'']) rootless_doc ''root'' = None"
    by (simp add: spec_host_sel rootless_doc_def)
  have b: "create_root (spec_host [Text ''Hello'']) None rootless_doc
      = (Inl MountPointNotFound, rootless_doc)"
    by (simp add: spec_host_sel)
  show ?thesis using a b missing_root_no_render [OF a b] by simp
qed

text \<open>
  Claim C9. The module is deterministic in its host: two runs from the same document and
  log, in two environments whose document answers the lookup of \<^verbatim>\<open>"root"\<close> alike and whose
  root creation, render and module loading behave alike, end with the same outcome, the
  same document and the same sequence of calls. The environments may differ in everything
  else they offer (the extension parts of the two hosts are arbitrary, and of different
  types), so the module reads no other input, clock or random source.
\<close>

theorem main_jsx_deterministic:
  fixes h1 :: "('n, 'r, 'd, 'e, 'y) host_scheme" and h2 :: "('n, 'r, 'd, 'e, 'z) host_scheme"
  assumes "\<forall>d. lookup_id h1 d ''root'' = lookup_id h2 d ''root''"
    and "create_root h1 = create_root h2"
    and "render_root h1 = render_root h2"
    and "load_module h1 = load_module h2"
  shows "main_jsx h1 (d, log) = main_jsx h2 (d, log)"
proof -
  have "bootstrap h1 = bootstrap h2"
    using assms by (auto simp: fun_eq_iff bootstrap_run split: prod.splits sum.splits)
  moreover have "module_imports h1 = module_imports h2"
    using assms by (simp add: module_imports_def import_module_def)
  ultimately show ?thesis by (simp add: main_jsx_def)
qed

theorem main_jsx_deterministic_witness:
  "(\<forall>d. lookup_id (spec_host [Text ''Hello'']) d ''root''
        = lookup_id (host_with_clock [Text ''Hello''] 1700000000) d ''root'')
   \<and> create_root (spec_host [Text ''Hello'']) = create_root (host_with_clock [Text ''Hello''] 1700000000)
   \<and> render_root (spec_host [Text ''Hello'']) = render_root (host_with_clock [Text ''Hello''] 1700000000)
   \<and> load_module (spec_host [Text ''Hello'']) = load_module (host_with_clock [Text ''Hello''] 1700000000)
   \<and> main_jsx (spec_host [Text ''Hello'']) (page_doc, [])
       = main_jsx (host_with_clock [Text ''Hello''] 1700000000) (page_doc, [])"
proof -
  have a: "\<forall>d. lookup_id (spec_host [Text ''Hello'']) d ''root''
        = lookup_id (host_with_clock [Text ''Hello''] 1700000000) d ''root''"
    by (simp add: host_with_clock_def host.defs)
  have b: "create_root (spec_host [Text ''Hello'']) = create_root (host_with_clock [Text ''Hello''] 1700000000)"
    by (simp add: host_with_clock_def host.defs)
  have c: "render_root (spec_host [Text ''Hello'']) = render_root (host_with_clock [Text ''Hello''] 1700000000)"
    by (simp add: host_with_clock_def host.defs)
  have e: "load_module (spec_host [Text ''Hello'']) = load_module (host_with_clock [Text ''Hello''] 1700000000)"
    by (simp add: host_with_clock_def host.defs)
  show ?thesis using a b c e main_jsx_deterministic [OF a b c e] by simp
qed

section \<open>Properties of the bootstrap on the reference host\<close>

text \<open>
  Claim C6. On the reference host, with the host document \<^verbatim>\<open><div id="root"></div>\<close> and
  an application component that renders the literal text \<^verbatim>\<open>Hello\<close>, the module runs to
  completion and afterwards the text content of the element with identifier \<^verbatim>\<open>"root"\<close>
  is \<^verbatim>\<open>Hello\<close>.
\<close>

theorem hello_scenario:
  "outcome (main_jsx (spec_host [Text ''Hello''])) root_only_doc = Inr ()
   \<and> text_of_id ''root'' (final_doc (main_jsx (spec_host [Text ''Hello''])) root_only_doc)
       = Some ''Hello''"
  by (simp add: outcome_def final_doc_def main_jsx_spec_host bootstrap_spec_host
      root_only_doc_def text_of_id_def)

text \<open>
  Claim C10. On the reference host, when the document has a \<^verbatim>\<open>"root"\<close> element at path
  \<open>p\<close>, the bootstrap statement changes the document only below that element: every node
  whose path \<open>q\<close> does not pass through \<open>p\<close> keeps its tag, identifier and text, and,
  unless it is an ancestor of the \<^verbatim>\<open>"root"\<close> element (whose subtree contains it), its
  whole subtree.
\<close>

theorem bootstrap_frame:
  assumes "find_id ''root'' d = Some p" and "\<not> prefix p q"
  shows "map_option without_children (node_at q (final_doc (bootstrap (spec_host m)) d))
           = map_option without_children (node_at q d)
       \<and> (\<not> prefix q p \<longrightarrow> node_at q (final_doc (bootstrap (spec_host m)) d) = node_at q d)"
  using assms
  by (simp add: final_doc_def bootstrap_spec_host replace_children_other replace_children_above)

theorem bootstrap_frame_witness:
  "find_id ''root'' page_doc = Some [1] \<and> \<not> prefix [1] [0::nat] \<and> \<not> prefix [0] [1::nat]
   \<and> node_at [0] (final_doc (bootstrap (spec_host [Text ''Hello''])) page_doc)
       = Some (Elem ''h1'' (Some ''title'') [Text ''CleanPro''])
   \<and> node_at [1] (final_doc (bootstrap (spec_host [Text ''Hello''])) page_doc)
       = Some (Elem ''div'' (Some ''root'') [Text ''Hello''])"
proof -
  have a: "find_id ''root'' page_doc = Some [1]" by (simp add: page_doc_def)
  have b: "\<not> prefix [1] [0::nat]" by simp
  have c: "\<not> prefix [0] [1::nat]" by simp
  have "node_at [0] (final_doc (bootstrap (spec_host [Text ''Hello''])) page_doc)
      = node_at [0] page_doc"
    using bootstrap_frame [OF a b, of "[Text ''Hello'']"] c by blast
  moreover have "node_at [0] page_doc = Some (Elem ''h1'' (Some ''title'') [Text ''CleanPro''])"
    by (simp add: page_doc_def)
  moreover have "node_at [1] (final_doc (bootstrap (spec_host [Text ''Hello''])) page_doc)
      = Some (Elem ''div'' (Some ''root'') [Text ''Hello''])"
    by (simp add: final_doc_def bootstrap_spec_host page_doc_def)
  ultimately show ?thesis using a b c by simp
qed

end
